theory Spec2Isabelle
  imports Main "HOL-Library.Word"
begin

section \<open>Web session authentication of go-steam (web.go)\<close>

text \<open>
  A shallow embedding of \<^verbatim>\<open>web.go\<close>: the \<^verbatim>\<open>Web\<close> struct, \<^verbatim>\<open>HandlePacket\<close>,
  \<^verbatim>\<open>LogOn\<close>, \<^verbatim>\<open>apiLogOn\<close>, \<^verbatim>\<open>handleNewLoginKey\<close> and \<^verbatim>\<open>handleAuthNonceResponse\<close>.
  The struct is a record that is passed through every function and returned updated.
  What the code does to the outside (reading randomness, posting the HTTP form, writing
  a protocol message, emitting an event, logging, starting the goroutine) is appended, in
  program order, to a trace held by the client. What the outside answers (random bytes,
  the results of the encryption routines, the HTTP response, the decoded JSON) is a
  parameter of each attempt, the record \<open>world\<close>.
\<close>

subsection \<open>Data\<close>

type_synonym byte = "8 word"

text \<open>A Go \<^verbatim>\<open>error\<close> value, identified by its message.\<close>

datatype error = Error (message: string)

text \<open>The members of \<^verbatim>\<open>steamlang.EMsg\<close> and \<^verbatim>\<open>steamlang.EUniverse\<close> that web.go names.\<close>

datatype EMsg =
    EMsg_ClientNewLoginKey
  | EMsg_ClientNewLoginKeyAccepted
  | EMsg_ClientRequestWebAPIAuthenticateUserNonce
  | EMsg_ClientRequestWebAPIAuthenticateUserNonceResponse
  | EMsg_Other int

datatype EUniverse =
    EUniverse_Invalid
  | EUniverse_Public
  | EUniverse_Beta
  | EUniverse_Internal
  | EUniverse_Dev

text \<open>
  The protobuf messages. Their fields are optional (a nil pointer in Go); the getters
  return the zero value for an absent field.
\<close>

record CMsgClientNewLoginKey =
  UniqueId :: "32 word option"
  LoginKey :: "string option"

record CMsgClientRequestWebAPIAuthenticateUserNonceResponse =
  Eresult :: "32 word option"
  WebapiAuthenticateUserNonce :: "string option"

definition GetUniqueId :: "CMsgClientNewLoginKey \<Rightarrow> 32 word" where
  "GetUniqueId msg = (case UniqueId msg of None \<Rightarrow> 0 | Some v \<Rightarrow> v)"

definition GetWebapiAuthenticateUserNonce ::
    "CMsgClientRequestWebAPIAuthenticateUserNonceResponse \<Rightarrow> string" where
  "GetWebapiAuthenticateUserNonce msg =
     (case WebapiAuthenticateUserNonce msg of None \<Rightarrow> [] | Some v \<Rightarrow> v)"

text \<open>Outbound messages: the two that web.go builds with \<^verbatim>\<open>protocol.NewProtoMessage\<close>.\<close>

datatype pb_message =
    CMsgClientRequestWebAPIAuthenticateUserNonce
  | CMsgClientNewLoginKeyAccepted "32 word option"

datatype message = ProtoMessage EMsg pb_message

datatype event =
    WebSessionIDEvent
  | WebLoggedOnEvent
  | WebLogOnErrorEvent error

text \<open>An inbound packet: its message type and its undecoded payload.\<close>

record Packet =
  EMsg :: EMsg
  Data :: "byte list"

text \<open>\<^verbatim>\<open>http.Response\<close>: the fields that apiLogOn reads.\<close>

record Response =
  StatusCode :: int
  Status :: string
  Body :: "byte list"

text \<open>\<^verbatim>\<open>url.Values\<close>: the pairs in the order of the calls of \<^verbatim>\<open>Add\<close>.\<close>

type_synonym url_Values = "(string \<times> string) list"

definition Add :: "string \<Rightarrow> string \<Rightarrow> url_Values \<Rightarrow> url_Values" where
  "Add k v data = data @ [(k, v)]"

datatype rsa_PublicKey = PublicKey (N: nat) (E: nat)

datatype cipher_Block = Block "byte list"

text \<open>The anonymous struct that the response body is decoded into.\<close>

record Authenticateuser =
  Token :: string
  TokenSecure :: string

text \<open>
  Everything the code does to the outside, in program order. \<open>Go\<close> is the start of the
  goroutine of \<^verbatim>\<open>LogOn\<close>; \<open>RandRead n\<close> is a call of \<^verbatim>\<open>rand.Read\<close> on a buffer of \<open>n\<close>
  bytes; \<open>PostForm\<close> is the HTTP request. The deferred \<^verbatim>\<open>resp.Body.Close()\<close> changes
  nothing that is modelled and is left out.
\<close>

datatype effect =
    RandRead nat
  | PostForm string url_Values
  | Write message
  | Emit event
  | Errorf string error
  | Go

record Client =
  steamID :: "64 word"
  trace :: "effect list"

record Web =
  relogOnNonce :: "32 word"
  SessionID :: string
  SteamLogin :: string
  SteamLoginSecure :: string
  webLoginKey :: string
  client :: Client

text \<open>
  What the outside answers during one call of apiLogOn. \<open>rand_source n\<close> is what the
  system's random source delivers to a read of \<open>n\<close> bytes. \<open>GetPublicKey\<close>,
  \<open>RSAEncrypt\<close> and \<open>SymmetricEncrypt\<close> are functions of this repository (package steam
  and package cryptoutil) whose source is not among the files at hand, \<open>aes_NewCipher\<close>,
  \<open>http_PostForm\<close> and \<open>json_Decode\<close> are the standard library's: all are parameters.
\<close>

record world =
  rand_source :: "nat \<Rightarrow> error + byte list"
  GetPublicKey :: "EUniverse \<Rightarrow> rsa_PublicKey"
  RSAEncrypt :: "rsa_PublicKey \<Rightarrow> byte list \<Rightarrow> error + byte list"
  aes_NewCipher :: "byte list \<Rightarrow> error + cipher_Block"
  SymmetricEncrypt :: "cipher_Block \<Rightarrow> byte list \<Rightarrow> error + byte list"
  http_PostForm :: "string \<Rightarrow> url_Values \<Rightarrow> error + Response"
  json_Decode :: "byte list \<Rightarrow> error + Authenticateuser"

subsection \<open>Library functions\<close>

text \<open>Conversions between a Go string and its bytes: \<^verbatim>\<open>[]byte(s)\<close> and \<^verbatim>\<open>string(b)\<close>.\<close>

definition bytes_of_string :: "string \<Rightarrow> byte list" where
  "bytes_of_string s = map of_char s"

definition string_of_bytes :: "byte list \<Rightarrow> string" where
  "string_of_bytes b = map (\<lambda>x. char_of (unat x)) b"

text \<open>\<^verbatim>\<open>make([]byte, n)\<close>: \<open>n\<close> zero bytes.\<close>

definition make_bytes :: "nat \<Rightarrow> byte list" where
  "make_bytes n = replicate n 0"

text \<open>
  \<^verbatim>\<open>rand.Read(b)\<close>: an error, or the buffer overwritten from its start with the bytes
  delivered (all of it, when the source delivers \<open>length b\<close> bytes as its contract says).
\<close>

definition rand_Read :: "world \<Rightarrow> byte list \<Rightarrow> error + byte list" where
  "rand_Read env b =
     (case rand_source env (length b) of
        Inl err \<Rightarrow> Inl err
      | Inr bs \<Rightarrow> Inr (take (length b) bs @ drop (length bs) b))"

text \<open>\<^verbatim>\<open>strconv.FormatUint(n, 10)\<close>: the decimal digits of \<open>n\<close>, no leading zero.\<close>

definition digits :: string where
  "digits = ''0123456789abcdefghijklmnopqrstuvwxyz''"

definition digit_char :: "nat \<Rightarrow> char" where
  "digit_char d = digits ! d"

fun FormatUint :: "nat \<Rightarrow> string" where
  "FormatUint n =
     (if n < 10 then [digit_char n] else FormatUint (n div 10) @ [digit_char (n mod 10)])"

declare FormatUint.simps [simp del]

text \<open>
  \<^verbatim>\<open>base64.StdEncoding.EncodeToString\<close>: the alphabet of RFC 4648, three bytes to four
  characters, the last group padded with \<^verbatim>\<open>=\<close>.
\<close>

definition encodeStd :: string where
  "encodeStd = ''ABCDEFGHIJKLMNOPQRSTUVWXYZabcdefghijklmnopqrstuvwxyz0123456789+/''"

definition b64_char :: "nat \<Rightarrow> char" where
  "b64_char i = encodeStd ! (i mod 64)"

fun EncodeToString :: "byte list \<Rightarrow> string" where
  "EncodeToString [] = []"
| "EncodeToString [a] =
     (let val = unat a * 65536
      in [b64_char (val div 262144), b64_char (val div 4096), CHR ''='', CHR ''=''])"
| "EncodeToString [a, b] =
     (let val = unat a * 65536 + unat b * 256
      in [b64_char (val div 262144), b64_char (val div 4096), b64_char (val div 64),
          CHR ''=''])"
| "EncodeToString (a # b # c # rest) =
     (let val = unat a * 65536 + unat b * 256 + unat c
      in [b64_char (val div 262144), b64_char (val div 4096), b64_char (val div 64),
          b64_char val] @ EncodeToString rest)"

subsection \<open>The client\<close>

definition record_effect :: "effect \<Rightarrow> Web \<Rightarrow> Web" where
  "record_effect e w = w\<lparr>client := (client w)\<lparr>trace := trace (client w) @ [e]\<rparr>\<rparr>"

definition client_Write :: "message \<Rightarrow> Web \<Rightarrow> Web" where
  "client_Write msg w = record_effect (Write msg) w"

definition client_Emit :: "event \<Rightarrow> Web \<Rightarrow> Web" where
  "client_Emit ev w = record_effect (Emit ev) w"

definition client_Errorf :: "string \<Rightarrow> error \<Rightarrow> Web \<Rightarrow> Web" where
  "client_Errorf fmt err w = record_effect (Errorf fmt err) w"

text \<open>
  Modelled from the spec: \<^verbatim>\<open>steamid.SteamID.FormatString\<close> is not among the source files;
  the spec (4.2) has the account identifier sent as a decimal string.
\<close>

definition SteamID_FormatString :: "Client \<Rightarrow> string" where
  "SteamID_FormatString c = FormatUint (unat (steamID c))"

text \<open>The effects that a run added to the trace.\<close>

definition new_effects :: "Web \<Rightarrow> Web \<Rightarrow> effect list" where
  "new_effects w w' = drop (length (trace (client w))) (trace (client w'))"

subsection \<open>Atomic operations on the flag\<close>

text \<open>
  \<^verbatim>\<open>atomic.StoreUint32\<close> and \<^verbatim>\<open>atomic.CompareAndSwapUint32\<close> on \<^verbatim>\<open>relogOnNonce\<close>, each one
  indivisible step: the swap returns whether it happened, with the state after it.
\<close>

definition StoreUint32_relogOnNonce :: "32 word \<Rightarrow> Web \<Rightarrow> Web" where
  "StoreUint32_relogOnNonce v w = w\<lparr>relogOnNonce := v\<rparr>"

definition CompareAndSwapUint32_relogOnNonce :: "32 word \<Rightarrow> 32 word \<Rightarrow> Web \<Rightarrow> bool \<times> Web" where
  "CompareAndSwapUint32_relogOnNonce old new w =
     (if relogOnNonce w = old then (True, w\<lparr>relogOnNonce := new\<rparr>) else (False, w))"

subsection \<open>LogOn and apiLogOn\<close>

definition api_url :: string where
  "api_url = ''https://api.steampowered.com/ISteamUserAuth/AuthenticateUser/v0001''"

text \<open>
  One exchange attempt, \<^verbatim>\<open>apiLogOn\<close>: the returned error (\<open>None\<close> is Go's nil) and the
  state after it.
\<close>

definition apiLogOn :: "world \<Rightarrow> Web \<Rightarrow> error option \<times> Web" where
  "apiLogOn env w =
     (let sessionKey = make_bytes 32;
          w = record_effect (RandRead (length sessionKey)) w
      in case rand_Read env sessionKey of
           Inl err \<Rightarrow> (Some err, w)
         | Inr sessionKey \<Rightarrow>
      (case RSAEncrypt env (GetPublicKey env EUniverse_Public) sessionKey of
           Inl err \<Rightarrow> (Some err, w)
         | Inr cryptedSessionKey \<Rightarrow>
      (case aes_NewCipher env sessionKey of
           Inl err \<Rightarrow> (Some err, w)
         | Inr ciph \<Rightarrow>
      (case SymmetricEncrypt env ciph (bytes_of_string (webLoginKey w)) of
           Inl err \<Rightarrow> (Some err, w)
         | Inr cryptedLoginKey \<Rightarrow>
      (let data = [];
           data = Add ''format'' ''json'' data;
           data = Add ''steamid'' (SteamID_FormatString (client w)) data;
           data = Add ''sessionkey'' (string_of_bytes cryptedSessionKey) data;
           data = Add ''encrypted_loginkey'' (string_of_bytes cryptedLoginKey) data;
           w = record_effect (PostForm api_url data) w
       in case http_PostForm env api_url data of
            Inl err \<Rightarrow> (Some err, w)
          | Inr resp \<Rightarrow>
              if StatusCode resp = 401 then
                (let w = StoreUint32_relogOnNonce 1 w;
                     pbmsg = CMsgClientRequestWebAPIAuthenticateUserNonce;
                     msg = ProtoMessage EMsg_ClientRequestWebAPIAuthenticateUserNonce pbmsg;
                     w = client_Write msg w
                 in (None, w))
              else if StatusCode resp \<noteq> 200 then
                (Some (Error (''web: request failed with status '' @ Status resp)), w)
              else
                (case json_Decode env (Body resp) of
                   Inl err \<Rightarrow> (Some err, w)
                 | Inr result \<Rightarrow>
                     (let w = w\<lparr>SteamLogin := Token result\<rparr>;
                          w = w\<lparr>SteamLoginSecure := TokenSecure result\<rparr>;
                          w = client_Emit WebLoggedOnEvent w
                      in (None, w))))))))"

text \<open>
  The body of the goroutine that \<^verbatim>\<open>LogOn\<close> starts: the three attempts, written out as
  in the source, each with the answers of the outside at its time.
\<close>

definition LogOn_goroutine :: "world \<Rightarrow> world \<Rightarrow> world \<Rightarrow> Web \<Rightarrow> Web" where
  "LogOn_goroutine env1 env2 env3 w =
     (case apiLogOn env1 w of (err, w) \<Rightarrow>
        (case (if err \<noteq> None then
                 (case apiLogOn env2 w of (err, w) \<Rightarrow>
                    if err \<noteq> None then apiLogOn env3 w else (err, w))
               else (err, w)) of (err, w) \<Rightarrow>
           (case err of
              Some e \<Rightarrow> client_Emit (WebLogOnErrorEvent e) w
            | None \<Rightarrow> w)))"

text \<open>
  \<^verbatim>\<open>LogOn\<close>: the error it returns and the state when it returns. With a login key it
  only starts the goroutine (the effect \<open>Go\<close>) and returns nil.
\<close>

definition LogOn :: "Web \<Rightarrow> error option \<times> Web" where
  "LogOn w =
     (if webLoginKey w = [] then
        (Some (Error ''steam/web: session not initialized''), w)
      else (None, record_effect Go w))"

subsection \<open>The packet handlers\<close>

text \<open>
  \<^verbatim>\<open>packet.ReadProtoMsg\<close> is the first argument of each handler: the decoder of the
  payload into the message the handler expects.
\<close>

definition handleNewLoginKey ::
    "(byte list \<Rightarrow> error + CMsgClientNewLoginKey) \<Rightarrow> Packet \<Rightarrow> Web \<Rightarrow> Web" where
  "handleNewLoginKey ReadProtoMsg packet w =
     (case ReadProtoMsg (Data packet) of
        Inl err \<Rightarrow> client_Errorf ''web: error reading message: %v'' err w
      | Inr msg \<Rightarrow>
          (let acceptMsg = CMsgClientNewLoginKeyAccepted (Some (GetUniqueId msg));
               w = client_Write (ProtoMessage EMsg_ClientNewLoginKeyAccepted acceptMsg) w;
               uniqueIDStr = FormatUint (unat (GetUniqueId msg));
               w = w\<lparr>SessionID := EncodeToString (bytes_of_string uniqueIDStr)\<rparr>
           in client_Emit WebSessionIDEvent w))"

definition handleAuthNonceResponse ::
    "(byte list \<Rightarrow> error + CMsgClientRequestWebAPIAuthenticateUserNonceResponse) \<Rightarrow>
     Packet \<Rightarrow> Web \<Rightarrow> Web" where
  "handleAuthNonceResponse ReadProtoMsg packet w =
     (case ReadProtoMsg (Data packet) of
        Inl err \<Rightarrow> client_Errorf ''web: error reading message: %v'' err w
      | Inr msg \<Rightarrow>
          (let w = w\<lparr>webLoginKey := GetWebapiAuthenticateUserNonce msg\<rparr>
           in case CompareAndSwapUint32_relogOnNonce 1 0 w of
                (True, w) \<Rightarrow>
                  (case LogOn w of
                     (Some err, w) \<Rightarrow> client_Errorf ''web: error logging on: %v'' err w
                   | (None, w) \<Rightarrow> w)
              | (False, w) \<Rightarrow> w))"

definition HandlePacket ::
    "(byte list \<Rightarrow> error + CMsgClientNewLoginKey) \<Rightarrow>
     (byte list \<Rightarrow> error + CMsgClientRequestWebAPIAuthenticateUserNonceResponse) \<Rightarrow>
     Packet \<Rightarrow> Web \<Rightarrow> Web" where
  "HandlePacket ReadNewLoginKey ReadNonceResponse packet w =
     (case EMsg packet of
        EMsg_ClientNewLoginKey \<Rightarrow> handleNewLoginKey ReadNewLoginKey packet w
      | EMsg_ClientRequestWebAPIAuthenticateUserNonceResponse \<Rightarrow>
          handleAuthNonceResponse ReadNonceResponse packet w
      | _ \<Rightarrow> w)"

subsection \<open>Reading the trace\<close>

text \<open>
  What a run added to the trace, by kind: the messages written to the connection, the
  events emitted, the HTTP forms posted, what was logged, the goroutines started, and the
  calls of \<^verbatim>\<open>rand.Read\<close> (apiLogOn makes one, first of all, so they count the attempts).
\<close>

definition written :: "effect list \<Rightarrow> message list" where
  "written es = concat (map (\<lambda>e. case e of Write m \<Rightarrow> [m] | _ \<Rightarrow> []) es)"

definition emitted :: "effect list \<Rightarrow> event list" where
  "emitted es = concat (map (\<lambda>e. case e of Emit ev \<Rightarrow> [ev] | _ \<Rightarrow> []) es)"

definition posted :: "effect list \<Rightarrow> (string \<times> url_Values) list" where
  "posted es = concat (map (\<lambda>e. case e of PostForm u d \<Rightarrow> [(u, d)] | _ \<Rightarrow> []) es)"

definition logged :: "effect list \<Rightarrow> (string \<times> error) list" where
  "logged es = concat (map (\<lambda>e. case e of Errorf f err \<Rightarrow> [(f, err)] | _ \<Rightarrow> []) es)"

definition started :: "effect list \<Rightarrow> nat" where
  "started es = length (filter (\<lambda>e. e = Go) es)"

definition attempts :: "effect list \<Rightarrow> nat" where
  "attempts es = length (filter (\<lambda>e. case e of RandRead _ \<Rightarrow> True | _ \<Rightarrow> False) es)"

text \<open>The fields of the struct other than the client, as a tuple.\<close>

definition session_state :: "Web \<Rightarrow> 32 word \<times> string \<times> string \<times> string \<times> string" where
  "session_state w =
     (relogOnNonce w, SessionID w, SteamLogin w, SteamLoginSecure w, webLoginKey w)"

subsection \<open>States and worlds for the examples\<close>

text \<open>
  \<open>web0\<close> is the struct as \<^verbatim>\<open>NewWeb\<close> makes it; \<open>web1\<close> has a login key and cookies of
  an earlier log-on; \<open>web_stale\<close> is \<open>web1\<close> waiting for a nonce. In \<open>world_with resp\<close>
  every step succeeds and the request is answered by \<open>resp\<close>; in \<open>world_down msg\<close> the
  request itself fails; in \<open>world_broken step msg\<close> the encryption step of that number
  fails. The encryption routines of these worlds are stand-ins.
\<close>

definition web0 :: Web where
  "web0 = \<lparr>relogOnNonce = 0, SessionID = [], SteamLogin = [], SteamLoginSecure = [],
           webLoginKey = [], client = \<lparr>steamID = 76561197960265729, trace = []\<rparr>\<rparr>"

definition web1 :: Web where
  "web1 = \<lparr>relogOnNonce = 0, SessionID = ''MTIzNDU='', SteamLogin = ''old'',
           SteamLoginSecure = ''oldsecure'', webLoginKey = ''loginkey'',
           client = \<lparr>steamID = 76561197960265729, trace = []\<rparr>\<rparr>"

definition web_stale :: Web where
  "web_stale = web1\<lparr>relogOnNonce := 1\<rparr>"

definition resp401 :: Response where
  "resp401 = \<lparr>StatusCode = 401, Status = ''401 Unauthorized'', Body = bytes_of_string ''stale''\<rparr>"

definition resp200 :: Response where
  "resp200 = \<lparr>StatusCode = 200, Status = ''200 OK'', Body = bytes_of_string ''{}''\<rparr>"

definition resp500 :: Response where
  "resp500 = \<lparr>StatusCode = 500, Status = ''500 Internal Server Error'', Body = []\<rparr>"

definition world_with :: "Response \<Rightarrow> world" where
  "world_with resp =
     \<lparr>rand_source = (\<lambda>n. Inr (replicate n 7)),
      GetPublicKey = (\<lambda>u. case u of EUniverse_Public \<Rightarrow> PublicKey 3233 17 | _ \<Rightarrow> PublicKey 0 0),
      RSAEncrypt = (\<lambda>k m. Inr (rev m)),
      aes_NewCipher = (\<lambda>k. Inr (Block k)),
      SymmetricEncrypt = (\<lambda>c m. Inr m),
      http_PostForm = (\<lambda>u d. Inr resp),
      json_Decode = (\<lambda>b. Inr \<lparr>Token = ''token'', TokenSecure = ''tokensecure''\<rparr>)\<rparr>"

definition world_down :: "string \<Rightarrow> world" where
  "world_down msg = (world_with resp500)\<lparr>http_PostForm := \<lambda>u d. Inl (Error msg)\<rparr>"

definition world_broken :: "nat \<Rightarrow> string \<Rightarrow> world" where
  "world_broken step msg =
     \<lparr>rand_source = (\<lambda>n. if step = 0 then Inl (Error msg) else Inr (replicate n 7)),
      GetPublicKey = (\<lambda>u. PublicKey 3233 17),
      RSAEncrypt = (\<lambda>k m. if step = 1 then Inl (Error msg) else Inr (rev m)),
      aes_NewCipher = (\<lambda>k. if step = 2 then Inl (Error msg) else Inr (Block k)),
      SymmetricEncrypt = (\<lambda>c m. if step = 3 then Inl (Error msg) else Inr m),
      http_PostForm = (\<lambda>u d. Inr resp200),
      json_Decode = (\<lambda>b. Inr \<lparr>Token = ''token'', TokenSecure = ''tokensecure''\<rparr>)\<rparr>"

definition key_packet :: Packet where
  "key_packet = \<lparr>EMsg = EMsg_ClientNewLoginKey, Data = [8, 185, 96]\<rparr>"

definition read_key :: "byte list \<Rightarrow> error + CMsgClientNewLoginKey" where
  "read_key d = (if d = [8, 185, 96] then Inr \<lparr>UniqueId = Some 12345, LoginKey = None\<rparr>
                 else Inl (Error ''proto: cannot parse invalid wire-format data''))"

definition nonce_packet :: Packet where
  "nonce_packet = \<lparr>EMsg = EMsg_ClientRequestWebAPIAuthenticateUserNonceResponse,
                   Data = [17, 1, 0, 0, 0]\<rparr>"

definition read_nonce ::
    "string \<Rightarrow> byte list \<Rightarrow> error + CMsgClientRequestWebAPIAuthenticateUserNonceResponse" where
  "read_nonce nonce d = Inr \<lparr>Eresult = Some 1, WebapiAuthenticateUserNonce = Some nonce\<rparr>"

section \<open>Properties\<close>


subsection \<open>Observers\<close>

lemma written_simps [simp]:
  "written [] = []"
  "written (Write m # es) = m # written es"
  "written (RandRead n # es) = written es"
  "written (PostForm u d # es) = written es"
  "written (Emit ev # es) = written es"
  "written (Errorf f err # es) = written es"
  "written (Go # es) = written es"
  "written (es @ es') = written es @ written es'"
  by (simp_all add: written_def)

lemma emitted_simps [simp]:
  "emitted [] = []"
  "emitted (Emit ev # es) = ev # emitted es"
  "emitted (RandRead n # es) = emitted es"
  "emitted (PostForm u d # es) = emitted es"
  "emitted (Write m # es) = emitted es"
  "emitted (Errorf f err # es) = emitted es"
  "emitted (Go # es) = emitted es"
  "emitted (es @ es') = emitted es @ emitted es'"
  by (simp_all add: emitted_def)

lemma posted_simps [simp]:
  "posted [] = []"
  "posted (PostForm u d # es) = (u, d) # posted es"
  "posted (RandRead n # es) = posted es"
  "posted (Emit ev # es) = posted es"
  "posted (Write m # es) = posted es"
  "posted (Errorf f err # es) = posted es"
  "posted (Go # es) = posted es"
  "posted (es @ es') = posted es @ posted es'"
  by (simp_all add: posted_def)

lemma logged_simps [simp]:
  "logged [] = []"
  "logged (Errorf f err # es) = (f, err) # logged es"
  "logged (RandRead n # es) = logged es"
  "logged (PostForm u d # es) = logged es"
  "logged (Emit ev # es) = logged es"
  "logged (Write m # es) = logged es"
  "logged (Go # es) = logged es"
  "logged (es @ es') = logged es @ logged es'"
  by (simp_all add: logged_def)

lemma started_simps [simp]:
  "started [] = 0"
  "started (Go # es) = Suc (started es)"
  "started (RandRead n # es) = started es"
  "started (PostForm u d # es) = started es"
  "started (Emit ev # es) = started es"
  "started (Write m # es) = started es"
  "started (Errorf f err # es) = started es"
  "started (es @ es') = started es + started es'"
  by (simp_all add: started_def)

lemma attempts_simps [simp]:
  "attempts [] = 0"
  "attempts (RandRead n # es) = Suc (attempts es)"
  "attempts (Go # es) = attempts es"
  "attempts (PostForm u d # es) = attempts es"
  "attempts (Emit ev # es) = attempts es"
  "attempts (Write m # es) = attempts es"
  "attempts (Errorf f err # es) = attempts es"
  "attempts (es @ es') = attempts es + attempts es'"
  by (simp_all add: attempts_def)

lemma new_effects_same [simp]: "new_effects w w = []"
  by (simp add: new_effects_def)

lemma new_effects_record_effect [simp]: "new_effects w (record_effect e w) = [e]"
  by (simp add: new_effects_def record_effect_def)

lemma new_effects_trace [simp]:
  "new_effects w (w'\<lparr>client := (client w)\<lparr>trace := trace (client w) @ es\<rparr>\<rparr>) = es"
  by (simp add: new_effects_def)

lemma session_state_trace [simp]:
  "session_state (w\<lparr>client := c\<rparr>) = session_state w"
  by (simp add: session_state_def)

subsection \<open>The library functions\<close>

text \<open>
  \<open>FormatUint\<close> is the decimal rendering: reading its digits back gives the number.
  \<open>EncodeToString\<close> yields four characters for every three bytes begun, and agrees with
  the test vectors of RFC 4648.
\<close>

lemma digit_char_value:
  assumes "d < 10"
  shows "of_char (digit_char d) = 48 + d"
proof -
  from assms have "d \<in> {0, 1, 2, 3, 4, 5, 6, 7, 8, 9}"
    by auto
  then show ?thesis
    by (elim insertE emptyE) (simp_all add: digit_char_def digits_def)
qed

lemma FormatUint_value:
  "foldl (\<lambda>a c. 10 * a + (of_char c - 48)) 0 (FormatUint n) = n"
proof (induction n rule: FormatUint.induct)
  case (1 n)
  show ?case
  proof (cases "n < 10")
    case True
    then show ?thesis
      by (simp add: FormatUint.simps [of n] digit_char_value)
  next
    case False
    with 1 have "foldl (\<lambda>a c. 10 * a + (of_char c - 48)) 0 (FormatUint (n div 10)) = n div 10"
      by simp
    with False show ?thesis
      by (simp add: FormatUint.simps [of n] digit_char_value)
  qed
qed

lemma EncodeToString_length: "length (EncodeToString bs) = 4 * ((length bs + 2) div 3)"
proof (induction bs rule: EncodeToString.induct)
  case (4 a b c rest)
  have "(length rest + 5) div 3 = Suc ((length rest + 2) div 3)"
    by presburger
  with 4 show ?case
    by (simp add: Let_def add.commute)
qed (simp_all add: Let_def)

lemma EncodeToString_rfc4648:
  "EncodeToString (bytes_of_string ''f'') = ''Zg==''"
  "EncodeToString (bytes_of_string ''fo'') = ''Zm8=''"
  "EncodeToString (bytes_of_string ''foo'') = ''Zm9v''"
  "EncodeToString (bytes_of_string ''foob'') = ''Zm9vYg==''"
  "EncodeToString (bytes_of_string ''fooba'') = ''Zm9vYmE=''"
  "EncodeToString (bytes_of_string ''foobar'') = ''Zm9vYmFy''"
  by (simp_all add: bytes_of_string_def b64_char_def encodeStd_def)

subsection \<open>The example worlds\<close>

text \<open>What the example worlds answer, and what the example decoder reads.\<close>

lemma world_with_crypto:
  "rand_Read (world_with resp) (make_bytes 32) = Inr (replicate 32 7)"
  "RSAEncrypt (world_with resp) (GetPublicKey (world_with resp) EUniverse_Public) k = Inr (rev k)"
  "aes_NewCipher (world_with resp) k = Inr (Block k)"
  "SymmetricEncrypt (world_with resp) c m = Inr m"
  "http_PostForm (world_with resp) u d = Inr resp"
  by (simp_all add: world_with_def rand_Read_def make_bytes_def)

lemma world_down_crypto:
  "rand_Read (world_down msg) (make_bytes 32) = Inr (replicate 32 7)"
  "RSAEncrypt (world_down msg) (GetPublicKey (world_down msg) EUniverse_Public) k = Inr (rev k)"
  "aes_NewCipher (world_down msg) k = Inr (Block k)"
  "SymmetricEncrypt (world_down msg) c m = Inr m"
  "http_PostForm (world_down msg) u d = Inl (Error msg)"
  by (simp_all add: world_down_def world_with_def rand_Read_def make_bytes_def)

lemma read_nonce_decodes:
  "read_nonce nonce (Data nonce_packet) =
     Inr \<lparr>Eresult = Some 1, WebapiAuthenticateUserNonce = Some nonce\<rparr>"
  "nonce = GetWebapiAuthenticateUserNonce
     \<lparr>Eresult = Some 1, WebapiAuthenticateUserNonce = Some nonce\<rparr>"
  by (simp_all add: read_nonce_def GetWebapiAuthenticateUserNonce_def)

subsection \<open>One exchange attempt\<close>

text \<open>
  Once the four encryption steps have succeeded the form is posted, and the outcome of
  apiLogOn is decided by the answer to the request alone.
\<close>

lemma apiLogOn_response:
  assumes "rand_Read env (make_bytes 32) = Inr key"
    and "RSAEncrypt env (GetPublicKey env EUniverse_Public) key = Inr csk"
    and "aes_NewCipher env key = Inr ciph"
    and "SymmetricEncrypt env ciph (bytes_of_string (webLoginKey w)) = Inr clk"
    and "data = [(''format'', ''json''), (''steamid'', SteamID_FormatString (client w)),
      (''sessionkey'', string_of_bytes csk), (''encrypted_loginkey'', string_of_bytes clk)]"
    and "http_PostForm env api_url data = Inr resp"
    and "w2 = w\<lparr>client := (client w)\<lparr>trace := trace (client w) @ [RandRead 32, PostForm api_url data]\<rparr>\<rparr>"
  shows "apiLogOn env w =
     (if StatusCode resp = 401 then
        (None, client_Write (ProtoMessage EMsg_ClientRequestWebAPIAuthenticateUserNonce
                 CMsgClientRequestWebAPIAuthenticateUserNonce) (StoreUint32_relogOnNonce 1 w2))
      else if StatusCode resp \<noteq> 200 then
        (Some (Error (''web: request failed with status '' @ Status resp)), w2)
      else (case json_Decode env (Body resp) of
              Inl err \<Rightarrow> (Some err, w2)
            | Inr result \<Rightarrow> (None, client_Emit WebLoggedOnEvent
                (w2\<lparr>SteamLogin := Token result, SteamLoginSecure := TokenSecure result\<rparr>))))"
  using assms
  by (simp add: apiLogOn_def Let_def record_effect_def make_bytes_def Add_def
      SteamID_FormatString_def split: sum.splits)

lemma apiLogOn_transport_failure:
  assumes "rand_Read env (make_bytes 32) = Inr key"
    and "RSAEncrypt env (GetPublicKey env EUniverse_Public) key = Inr csk"
    and "aes_NewCipher env key = Inr ciph"
    and "SymmetricEncrypt env ciph (bytes_of_string (webLoginKey w)) = Inr clk"
    and "data = [(''format'', ''json''), (''steamid'', SteamID_FormatString (client w)),
      (''sessionkey'', string_of_bytes csk), (''encrypted_loginkey'', string_of_bytes clk)]"
    and "http_PostForm env api_url data = Inl err"
  shows "apiLogOn env w =
     (Some err, w\<lparr>client := (client w)\<lparr>trace := trace (client w) @
                     [RandRead 32, PostForm api_url data]\<rparr>\<rparr>)"
  using assms
  by (simp add: apiLogOn_def Let_def record_effect_def make_bytes_def Add_def
      SteamID_FormatString_def)

lemma apiLogOn_crypto_abort:
  assumes "rand_Read env (make_bytes 32) = Inl err \<or>
           rand_Read env (make_bytes 32) = Inr key \<and>
           (RSAEncrypt env (GetPublicKey env EUniverse_Public) key = Inl err \<or>
            RSAEncrypt env (GetPublicKey env EUniverse_Public) key = Inr csk \<and>
            (aes_NewCipher env key = Inl err \<or>
             aes_NewCipher env key = Inr ciph \<and>
             SymmetricEncrypt env ciph (bytes_of_string (webLoginKey w)) = Inl err))"
  shows "apiLogOn env w = (Some err, record_effect (RandRead 32) w)"
  using assms
  by (auto simp add: apiLogOn_def Let_def record_effect_def make_bytes_def)

lemma apiLogOn_keeps:
  "webLoginKey (snd (apiLogOn env w)) = webLoginKey w \<and>
   SessionID (snd (apiLogOn env w)) = SessionID w \<and>
   steamID (client (snd (apiLogOn env w))) = steamID (client w)"
  by (simp add: apiLogOn_def Let_def record_effect_def client_Write_def client_Emit_def
      StoreUint32_relogOnNonce_def split: sum.splits)

lemma apiLogOn_trace:
  "\<exists>es. trace (client (snd (apiLogOn env w))) = trace (client w) @ es \<and>
        attempts es = 1 \<and> started es = 0 \<and>
        (fst (apiLogOn env w) \<noteq> None \<longrightarrow> emitted es = [] \<and> written es = [])"
  by (simp add: apiLogOn_def Let_def record_effect_def client_Write_def client_Emit_def
      StoreUint32_relogOnNonce_def make_bytes_def split: sum.splits)

lemma apiLogOn_posts:
  assumes "rand_Read env (make_bytes 32) = Inr key"
    and "RSAEncrypt env (GetPublicKey env EUniverse_Public) key = Inr csk"
    and "aes_NewCipher env key = Inr ciph"
    and "SymmetricEncrypt env ciph (bytes_of_string (webLoginKey w)) = Inr clk"
    and "data = [(''format'', ''json''), (''steamid'', SteamID_FormatString (client w)),
      (''sessionkey'', string_of_bytes csk), (''encrypted_loginkey'', string_of_bytes clk)]"
  shows "length key = 32 \<and>
         attempts (new_effects w (snd (apiLogOn env w))) = 1 \<and>
         take 2 (new_effects w (snd (apiLogOn env w))) = [RandRead 32, PostForm api_url data] \<and>
         posted (new_effects w (snd (apiLogOn env w))) = [(api_url, data)]"
proof -
  have len: "length key = 32"
    using assms(1) by (auto simp add: rand_Read_def make_bytes_def split: sum.splits)
  show ?thesis
  proof (cases "http_PostForm env api_url data")
    case (Inl err)
    from apiLogOn_transport_failure [OF assms(1-5) Inl] len show ?thesis
      by simp
  next
    case (Inr resp)
    from apiLogOn_response [OF assms(1-5) Inr refl] len show ?thesis
      by (simp add: client_Write_def client_Emit_def record_effect_def
          StoreUint32_relogOnNonce_def new_effects_def split: sum.splits)
  qed
qed

lemma world_down_fails: "fst (apiLogOn (world_down msg) w) = Some (Error msg)"
  using apiLogOn_transport_failure [where env = "world_down msg" and w = w,
      OF world_down_crypto(1-4) refl world_down_crypto(5)]
  by simp

lemma LogOn_goroutine_unfold:
  "LogOn_goroutine env1 env2 env3 s =
     (case fst (apiLogOn env1 s) of
        None \<Rightarrow> snd (apiLogOn env1 s)
      | Some _ \<Rightarrow>
          (case fst (apiLogOn env2 (snd (apiLogOn env1 s))) of
             None \<Rightarrow> snd (apiLogOn env2 (snd (apiLogOn env1 s)))
           | Some _ \<Rightarrow>
               (case fst (apiLogOn env3 (snd (apiLogOn env2 (snd (apiLogOn env1 s))))) of
                  None \<Rightarrow> snd (apiLogOn env3 (snd (apiLogOn env2 (snd (apiLogOn env1 s)))))
                | Some e \<Rightarrow> client_Emit (WebLogOnErrorEvent e)
                    (snd (apiLogOn env3 (snd (apiLogOn env2 (snd (apiLogOn env1 s)))))))))"
proof -
  obtain e1 s1 where r1: "apiLogOn env1 s = (e1, s1)"
    by (cases "apiLogOn env1 s")
  obtain e2 s2 where r2: "apiLogOn env2 s1 = (e2, s2)"
    by (cases "apiLogOn env2 s1")
  obtain e3 s3 where r3: "apiLogOn env3 s2 = (e3, s3)"
    by (cases "apiLogOn env3 s2")
  show ?thesis
    by (cases e1; cases e2; cases e3) (simp_all add: LogOn_goroutine_def r1 r2 r3)
qed

subsection \<open>Dispatch\<close>

text \<open>
  \<^verbatim>\<open>HandlePacket\<close> passes the two message types to their handlers and ignores every
  other packet.
\<close>

lemma HandlePacket_NewLoginKey:
  "EMsg packet = EMsg_ClientNewLoginKey \<Longrightarrow>
   HandlePacket rk rn packet w = handleNewLoginKey rk packet w"
  by (simp add: HandlePacket_def)

lemma HandlePacket_NonceResponse:
  "EMsg packet = EMsg_ClientRequestWebAPIAuthenticateUserNonceResponse \<Longrightarrow>
   HandlePacket rk rn packet w = handleAuthNonceResponse rn packet w"
  by (simp add: HandlePacket_def)

lemma HandlePacket_other:
  "EMsg packet \<noteq> EMsg_ClientNewLoginKey \<Longrightarrow>
   EMsg packet \<noteq> EMsg_ClientRequestWebAPIAuthenticateUserNonceResponse \<Longrightarrow>
   HandlePacket rk rn packet w = w"
  by (cases "EMsg packet") (simp_all add: HandlePacket_def)

text \<open>A packet that does not decode is logged and dropped: the struct is as before.\<close>

lemma handleNewLoginKey_malformed:
  "ReadProtoMsg (Data packet) = Inl err \<Longrightarrow>
   handleNewLoginKey ReadProtoMsg packet w =
     client_Errorf ''web: error reading message: %v'' err w"
  by (simp add: handleNewLoginKey_def)

lemma handleAuthNonceResponse_malformed:
  "ReadProtoMsg (Data packet) = Inl err \<Longrightarrow>
   handleAuthNonceResponse ReadProtoMsg packet w =
     client_Errorf ''web: error reading message: %v'' err w"
  by (simp add: handleAuthNonceResponse_def)

subsection \<open>Status 401: the login key has expired\<close>

text \<open>
  C1. An exchange attempt whose HTTP response has status 401, whatever its body, stores 1
  in \<^verbatim>\<open>relogOnNonce\<close>, writes exactly one message to the connection, the
  \<^verbatim>\<open>ClientRequestWebAPIAuthenticateUserNonce\<close> request, and returns nil. Besides reading
  the random bytes and posting the form it does nothing else: it emits no event (neither
  \<^verbatim>\<open>WebLoggedOnEvent\<close> nor \<^verbatim>\<open>WebLogOnErrorEvent\<close>), and the two cookies, the session id
  and the login key are as before.
\<close>

theorem apiLogOn_unauthorized:
  fixes env w
  defines "w' \<equiv> snd (apiLogOn env w)"
  assumes "rand_Read env (make_bytes 32) = Inr key"
    and "RSAEncrypt env (GetPublicKey env EUniverse_Public) key = Inr csk"
    and "aes_NewCipher env key = Inr ciph"
    and "SymmetricEncrypt env ciph (bytes_of_string (webLoginKey w)) = Inr clk"
    and "data = [(''format'', ''json''), (''steamid'', SteamID_FormatString (client w)),
      (''sessionkey'', string_of_bytes csk), (''encrypted_loginkey'', string_of_bytes clk)]"
    and "http_PostForm env api_url data = Inr resp"
    and "StatusCode resp = 401"
  shows "fst (apiLogOn env w) = None \<and>
         relogOnNonce w' = 1 \<and>
         new_effects w w' = [RandRead 32, PostForm api_url data,
           Write (ProtoMessage EMsg_ClientRequestWebAPIAuthenticateUserNonce
                    CMsgClientRequestWebAPIAuthenticateUserNonce)] \<and>
         written (new_effects w w') = [ProtoMessage EMsg_ClientRequestWebAPIAuthenticateUserNonce
                    CMsgClientRequestWebAPIAuthenticateUserNonce] \<and>
         emitted (new_effects w w') = [] \<and>
         SteamLogin w' = SteamLogin w \<and> SteamLoginSecure w' = SteamLoginSecure w \<and>
         SessionID w' = SessionID w \<and> webLoginKey w' = webLoginKey w"
  unfolding w'_def
  using apiLogOn_response [OF assms(2-7) refl] assms(8)
  by (simp add: client_Write_def record_effect_def StoreUint32_relogOnNonce_def new_effects_def)

theorem apiLogOn_unauthorized_witness:
  "fst (apiLogOn (world_with resp401) web1) = None \<and>
   relogOnNonce (snd (apiLogOn (world_with resp401) web1)) = 1 \<and>
   written (new_effects web1 (snd (apiLogOn (world_with resp401) web1))) =
     [ProtoMessage EMsg_ClientRequestWebAPIAuthenticateUserNonce
        CMsgClientRequestWebAPIAuthenticateUserNonce] \<and>
   emitted (new_effects web1 (snd (apiLogOn (world_with resp401) web1))) = [] \<and>
   SteamLogin (snd (apiLogOn (world_with resp401) web1)) = ''old'' \<and>
   SteamLoginSecure (snd (apiLogOn (world_with resp401) web1)) = ''oldsecure''"
proof -
  have status: "StatusCode resp401 = 401"
    by (simp add: resp401_def)
  have old: "SteamLogin web1 = ''old''" "SteamLoginSecure web1 = ''oldsecure''"
    by (simp_all add: web1_def)
  from apiLogOn_unauthorized [where env = "world_with resp401" and w = web1,
      OF world_with_crypto(1-4) refl world_with_crypto(5) status] old
  show ?thesis
    by simp
qed

subsection \<open>The nonce response\<close>

text \<open>
  C2. For every nonce response that decodes, \<^verbatim>\<open>handleAuthNonceResponse\<close> stores the
  delivered nonce in \<^verbatim>\<open>webLoginKey\<close> whatever the flag is, and swaps \<^verbatim>\<open>relogOnNonce\<close>
  from 1 to 0 in one step. If the flag was 1 it is 0 afterwards and \<^verbatim>\<open>LogOn\<close> runs
  exactly once, on the state with the new key and the flag cleared: either the one
  goroutine is started, or (the nonce is empty) \<^verbatim>\<open>LogOn\<close> returns its error, which is
  logged and nothing more, the flag staying 0. If the flag was not 1, \<^verbatim>\<open>LogOn\<close> does not
  run: the state is the old one with the new key, and nothing is added to the trace. The
  handler itself emits no event and writes no message.
\<close>

theorem handleAuthNonceResponse_relog:
  fixes ReadProtoMsg packet w
  defines "w' \<equiv> handleAuthNonceResponse ReadProtoMsg packet w"
  assumes "ReadProtoMsg (Data packet) = Inr msg"
    and "nonce = GetWebapiAuthenticateUserNonce msg"
  shows "webLoginKey w' = nonce \<and>
         SessionID w' = SessionID w \<and> SteamLogin w' = SteamLogin w \<and>
         SteamLoginSecure w' = SteamLoginSecure w \<and>
         emitted (new_effects w w') = [] \<and> written (new_effects w w') = [] \<and>
         (relogOnNonce w = 1 \<longrightarrow>
            relogOnNonce w' = 0 \<and>
            w' = (case LogOn (w\<lparr>webLoginKey := nonce, relogOnNonce := 0\<rparr>) of
                    (None, v) \<Rightarrow> v
                  | (Some err, v) \<Rightarrow> client_Errorf ''web: error logging on: %v'' err v) \<and>
            started (new_effects w w') + length (logged (new_effects w w')) = 1 \<and>
            (nonce \<noteq> [] \<longrightarrow> new_effects w w' = [Go]) \<and>
            (nonce = [] \<longrightarrow> new_effects w w' =
               [Errorf ''web: error logging on: %v''
                  (Error ''steam/web: session not initialized'')])) \<and>
         (relogOnNonce w \<noteq> 1 \<longrightarrow>
            w' = w\<lparr>webLoginKey := nonce\<rparr> \<and> relogOnNonce w' = relogOnNonce w \<and>
            new_effects w w' = [] \<and> started (new_effects w w') = 0 \<and>
            logged (new_effects w w') = [])"
proof (cases "relogOnNonce w = 1")
  case True
  show ?thesis
  proof (cases "nonce = []")
    case empty: True
    with True assms(2,3) show ?thesis
      by (simp add: w'_def handleAuthNonceResponse_def CompareAndSwapUint32_relogOnNonce_def
          Let_def LogOn_def client_Errorf_def record_effect_def new_effects_def)
  next
    case False
    with True assms(2,3) show ?thesis
      by (simp add: w'_def handleAuthNonceResponse_def CompareAndSwapUint32_relogOnNonce_def
          Let_def LogOn_def client_Errorf_def record_effect_def new_effects_def)
  qed
next
  case False
  with assms(2,3) show ?thesis
    by (simp add: w'_def handleAuthNonceResponse_def CompareAndSwapUint32_relogOnNonce_def
        Let_def new_effects_def)
qed

theorem handleAuthNonceResponse_relog_witness:
  "relogOnNonce web_stale = 1 \<and>
   new_effects web_stale
     (handleAuthNonceResponse (read_nonce ''fresh'') nonce_packet web_stale) = [Go] \<and>
   relogOnNonce (handleAuthNonceResponse (read_nonce ''fresh'') nonce_packet web_stale) = 0 \<and>
   webLoginKey (handleAuthNonceResponse (read_nonce ''fresh'') nonce_packet web_stale) =
     ''fresh'' \<and>
   relogOnNonce web1 = 0 \<and>
   handleAuthNonceResponse (read_nonce ''fresh'') nonce_packet web1 =
     web1\<lparr>webLoginKey := ''fresh''\<rparr> \<and>
   new_effects web1 (handleAuthNonceResponse (read_nonce ''fresh'') nonce_packet web1) = []"
proof -
  have armed: "relogOnNonce web_stale = 1" and idle: "relogOnNonce web1 = 0"
    by (simp_all add: web_stale_def web1_def)
  from handleAuthNonceResponse_relog [where ReadProtoMsg = "read_nonce ''fresh''"
      and packet = nonce_packet and w = web_stale, OF read_nonce_decodes]
  have retry: "new_effects web_stale
     (handleAuthNonceResponse (read_nonce ''fresh'') nonce_packet web_stale) = [Go] \<and>
   relogOnNonce (handleAuthNonceResponse (read_nonce ''fresh'') nonce_packet web_stale) = 0 \<and>
   webLoginKey (handleAuthNonceResponse (read_nonce ''fresh'') nonce_packet web_stale) =
     ''fresh''"
    apply (simp (no_asm_use) add: armed)
    apply blast
    done
  from handleAuthNonceResponse_relog [where ReadProtoMsg = "read_nonce ''fresh''"
      and packet = nonce_packet and w = web1, OF read_nonce_decodes]
  have cache: "handleAuthNonceResponse (read_nonce ''fresh'') nonce_packet web1 =
     web1\<lparr>webLoginKey := ''fresh''\<rparr> \<and>
   new_effects web1 (handleAuthNonceResponse (read_nonce ''fresh'') nonce_packet web1) = []"
    apply (simp (no_asm_use) add: idle)
    apply blast
    done
  from armed idle retry cache show ?thesis
    by blast
qed

subsection \<open>The three attempts of LogOn\<close>

text \<open>
  C3. With a login key, \<^verbatim>\<open>LogOn\<close> returns nil and starts one goroutine. The goroutine,
  in whatever state \<open>s\<close> it runs, makes one, two or three attempts and never more: the
  second attempt runs only if the first returned an error, the third only if the second
  did too. An attempt that returns nil ends the sequence; the 401 outcome is one of them,
  so it is followed by no further attempt and by no event. If all three attempts return
  an error, the trace of the run is the traces of the three attempts one after the other,
  with nothing between them, followed by one \<^verbatim>\<open>WebLogOnErrorEvent\<close> that carries the error
  of the third attempt; it is the only event of the run.
\<close>

theorem LogOn_three_attempts:
  fixes env1 env2 env3 s w
  defines "r1 \<equiv> apiLogOn env1 s"
  defines "r2 \<equiv> apiLogOn env2 (snd r1)"
  defines "r3 \<equiv> apiLogOn env3 (snd r2)"
  defines "s' \<equiv> LogOn_goroutine env1 env2 env3 s"
  assumes "webLoginKey w \<noteq> []"
  shows "LogOn w = (None, record_effect Go w) \<and>
         started (new_effects w (snd (LogOn w))) = 1 \<and>
         attempts (new_effects s s') =
           (if fst r1 = None then 1 else if fst r2 = None then 2 else 3) \<and>
         attempts (new_effects s s') \<le> 3 \<and>
         (fst r1 = None \<longrightarrow> s' = snd r1) \<and>
         (fst r1 \<noteq> None \<and> fst r2 = None \<longrightarrow> s' = snd r2) \<and>
         (fst r1 \<noteq> None \<and> fst r2 \<noteq> None \<and> fst r3 = None \<longrightarrow> s' = snd r3) \<and>
         (fst r1 \<noteq> None \<and> fst r2 \<noteq> None \<and> fst r3 = Some e \<longrightarrow>
            s' = client_Emit (WebLogOnErrorEvent e) (snd r3) \<and>
            emitted (new_effects s s') = [WebLogOnErrorEvent e] \<and>
            new_effects s s' =
              new_effects s (snd r1) @ new_effects (snd r1) (snd r2) @
              new_effects (snd r2) (snd r3) @ [Emit (WebLogOnErrorEvent e)]) \<and>
         (rand_Read env1 (make_bytes 32) = Inr key \<and>
          RSAEncrypt env1 (GetPublicKey env1 EUniverse_Public) key = Inr csk \<and>
          aes_NewCipher env1 key = Inr ciph \<and>
          SymmetricEncrypt env1 ciph (bytes_of_string (webLoginKey s)) = Inr clk \<and>
          http_PostForm env1 api_url
            [(''format'', ''json''), (''steamid'', SteamID_FormatString (client s)),
             (''sessionkey'', string_of_bytes csk),
             (''encrypted_loginkey'', string_of_bytes clk)] = Inr resp \<and>
          StatusCode resp = 401 \<longrightarrow>
            s' = snd r1 \<and> attempts (new_effects s s') = 1 \<and>
            emitted (new_effects s s') = [])"
proof -
  obtain es1 where t1: "trace (client (snd r1)) = trace (client s) @ es1"
    and a1: "attempts es1 = 1" and q1: "fst r1 \<noteq> None \<longrightarrow> emitted es1 = []"
    using apiLogOn_trace [of env1 s] unfolding r1_def by blast
  obtain es2 where t2: "trace (client (snd r2)) = trace (client (snd r1)) @ es2"
    and a2: "attempts es2 = 1" and q2: "fst r2 \<noteq> None \<longrightarrow> emitted es2 = []"
    using apiLogOn_trace [of env2 "snd r1"] unfolding r2_def by blast
  obtain es3 where t3: "trace (client (snd r3)) = trace (client (snd r2)) @ es3"
    and a3: "attempts es3 = 1" and q3: "fst r3 \<noteq> None \<longrightarrow> emitted es3 = []"
    using apiLogOn_trace [of env3 "snd r2"] unfolding r3_def by blast
  have n1: "new_effects s (snd r1) = es1"
    by (simp add: new_effects_def t1)
  have n2: "new_effects (snd r1) (snd r2) = es2"
    by (simp add: new_effects_def t2)
  have n3: "new_effects (snd r2) (snd r3) = es3"
    by (simp add: new_effects_def t3)
  have n12: "new_effects s (snd r2) = es1 @ es2"
    by (simp add: new_effects_def t1 t2)
  have n123: "new_effects s (snd r3) = es1 @ es2 @ es3"
    by (simp add: new_effects_def t1 t2 t3)
  have n1234: "new_effects s (client_Emit ev (snd r3)) = es1 @ es2 @ es3 @ [Emit ev]" for ev
    by (simp add: new_effects_def client_Emit_def record_effect_def t1 t2 t3)
  have run: "s' =
     (case fst r1 of None \<Rightarrow> snd r1
      | Some _ \<Rightarrow> (case fst r2 of None \<Rightarrow> snd r2
         | Some _ \<Rightarrow> (case fst r3 of None \<Rightarrow> snd r3
            | Some e \<Rightarrow> client_Emit (WebLogOnErrorEvent e) (snd r3))))"
    unfolding s'_def r1_def r2_def r3_def by (rule LogOn_goroutine_unfold)
  have start: "LogOn w = (None, record_effect Go w)"
    using assms(5) by (simp add: LogOn_def)
  have count: "attempts (new_effects s s') =
      (if fst r1 = None then 1 else if fst r2 = None then 2 else 3)"
    using a1 a2 a3 by (auto simp add: run n1 n12 n123 n1234 split: option.splits)
  have stop1: "fst r1 = None \<longrightarrow> s' = snd r1"
    by (simp add: run)
  have stop2: "fst r1 \<noteq> None \<and> fst r2 = None \<longrightarrow> s' = snd r2"
    by (auto simp add: run)
  have stop3: "fst r1 \<noteq> None \<and> fst r2 \<noteq> None \<and> fst r3 = None \<longrightarrow> s' = snd r3"
    by (auto simp add: run)
  have failed: "fst r1 \<noteq> None \<and> fst r2 \<noteq> None \<and> fst r3 = Some e \<longrightarrow>
      s' = client_Emit (WebLogOnErrorEvent e) (snd r3) \<and>
      emitted (new_effects s s') = [WebLogOnErrorEvent e] \<and>
      new_effects s s' =
        new_effects s (snd r1) @ new_effects (snd r1) (snd r2) @
        new_effects (snd r2) (snd r3) @ [Emit (WebLogOnErrorEvent e)]"
    using q1 q2 q3 by (auto simp add: run n1 n2 n3 n1234)
  have stale: "rand_Read env1 (make_bytes 32) = Inr key \<and>
      RSAEncrypt env1 (GetPublicKey env1 EUniverse_Public) key = Inr csk \<and>
      aes_NewCipher env1 key = Inr ciph \<and>
      SymmetricEncrypt env1 ciph (bytes_of_string (webLoginKey s)) = Inr clk \<and>
      http_PostForm env1 api_url
        [(''format'', ''json''), (''steamid'', SteamID_FormatString (client s)),
         (''sessionkey'', string_of_bytes csk),
         (''encrypted_loginkey'', string_of_bytes clk)] = Inr resp \<and>
      StatusCode resp = 401 \<longrightarrow>
        s' = snd r1 \<and> attempts (new_effects s s') = 1 \<and> emitted (new_effects s s') = []"
  proof (intro impI, elim conjE)
    assume h: "rand_Read env1 (make_bytes 32) = Inr key"
      "RSAEncrypt env1 (GetPublicKey env1 EUniverse_Public) key = Inr csk"
      "aes_NewCipher env1 key = Inr ciph"
      "SymmetricEncrypt env1 ciph (bytes_of_string (webLoginKey s)) = Inr clk"
      "http_PostForm env1 api_url
        [(''format'', ''json''), (''steamid'', SteamID_FormatString (client s)),
         (''sessionkey'', string_of_bytes csk),
         (''encrypted_loginkey'', string_of_bytes clk)] = Inr resp"
      and st: "StatusCode resp = 401"
    from apiLogOn_response [OF h(1-4) refl h(5) refl] st
    have r: "r1 = (None, client_Write (ProtoMessage EMsg_ClientRequestWebAPIAuthenticateUserNonce
                 CMsgClientRequestWebAPIAuthenticateUserNonce) (StoreUint32_relogOnNonce 1
        (s\<lparr>client := (client s)\<lparr>trace := trace (client s) @ [RandRead 32, PostForm api_url
        [(''format'', ''json''), (''steamid'', SteamID_FormatString (client s)),
         (''sessionkey'', string_of_bytes csk),
         (''encrypted_loginkey'', string_of_bytes clk)]]\<rparr>\<rparr>)))"
      unfolding r1_def by simp
    then have "fst r1 = None"
      by simp
    moreover from this have "s' = snd r1"
      by (simp add: run)
    moreover have "emitted (new_effects s (snd r1)) = []"
      by (simp add: r client_Write_def record_effect_def StoreUint32_relogOnNonce_def
          new_effects_def)
    ultimately show "s' = snd r1 \<and> attempts (new_effects s s') = 1 \<and>
        emitted (new_effects s s') = []"
      using count by simp
  qed
  from count have bound: "attempts (new_effects s s') \<le> 3"
    by simp
  from start have go: "started (new_effects w (snd (LogOn w))) = 1"
    by simp
  from start go count bound stop1 stop2 stop3 failed stale show ?thesis
    by blast
qed

theorem LogOn_three_attempts_witness:
  "webLoginKey web1 \<noteq> [] \<and>
   LogOn web1 = (None, record_effect Go web1) \<and>
   attempts (new_effects web1
     (LogOn_goroutine (world_down ''e1'') (world_down ''e2'') (world_down ''e3'') web1)) = 3 \<and>
   emitted (new_effects web1
     (LogOn_goroutine (world_down ''e1'') (world_down ''e2'') (world_down ''e3'') web1)) =
     [WebLogOnErrorEvent (Error ''e3'')] \<and>
   attempts (new_effects web1
     (LogOn_goroutine (world_with resp401) (world_down ''e2'') (world_down ''e3'') web1)) = 1 \<and>
   emitted (new_effects web1
     (LogOn_goroutine (world_with resp401) (world_down ''e2'') (world_down ''e3'') web1)) = []"
proof -
  have key: "webLoginKey web1 \<noteq> []"
    by (simp add: web1_def)
  have status: "StatusCode resp401 = 401"
    by (simp add: resp401_def)
  from LogOn_three_attempts [OF key, where ?env1.0 = "world_down ''e1''"
      and ?env2.0 = "world_down ''e2''" and ?env3.0 = "world_down ''e3''" and s = web1
      and e = "Error ''e3''" and key = "[]" and csk = "[]" and ciph = "Block []"
      and clk = "[]" and resp = resp401]
  have down: "LogOn web1 = (None, record_effect Go web1) \<and>
    attempts (new_effects web1
     (LogOn_goroutine (world_down ''e1'') (world_down ''e2'') (world_down ''e3'') web1)) = 3 \<and>
    emitted (new_effects web1
     (LogOn_goroutine (world_down ''e1'') (world_down ''e2'') (world_down ''e3'') web1)) =
     [WebLogOnErrorEvent (Error ''e3'')]"
    apply (simp (no_asm_use) add: world_down_fails)
    apply blast
    done
  from LogOn_three_attempts [OF key, where ?env1.0 = "world_with resp401"
      and ?env2.0 = "world_down ''e2''" and ?env3.0 = "world_down ''e3''" and s = web1
      and key = "replicate 32 7" and csk = "replicate 32 7" and ciph = "Block (replicate 32 7)"
      and clk = "bytes_of_string (webLoginKey web1)" and resp = resp401
      and e = "Error []"]
  have stale: "attempts (new_effects web1
     (LogOn_goroutine (world_with resp401) (world_down ''e2'') (world_down ''e3'') web1)) = 1 \<and>
   emitted (new_effects web1
     (LogOn_goroutine (world_with resp401) (world_down ''e2'') (world_down ''e3'') web1)) = []"
    apply (simp (no_asm_use) add: world_with_crypto status)
    apply blast
    done
  from key down stale show ?thesis
    by simp
qed

subsection \<open>LogOn without a login key\<close>

text \<open>
  C4. In every state whose \<^verbatim>\<open>webLoginKey\<close> is the empty string, \<^verbatim>\<open>LogOn\<close> returns the
  error "steam/web: session not initialized" at once and returns the state it was given:
  every field of the struct is as before, and nothing was added to the trace, so no
  random bytes were read, no HTTP request was posted and no goroutine was started.
\<close>

theorem LogOn_not_initialized:
  assumes "webLoginKey w = []"
  shows "fst (LogOn w) = Some (Error ''steam/web: session not initialized'') \<and>
         snd (LogOn w) = w \<and>
         session_state (snd (LogOn w)) = session_state w \<and>
         new_effects w (snd (LogOn w)) = [] \<and>
         posted (new_effects w (snd (LogOn w))) = [] \<and>
         started (new_effects w (snd (LogOn w))) = 0 \<and>
         attempts (new_effects w (snd (LogOn w))) = 0"
  using assms by (simp add: LogOn_def)

theorem LogOn_not_initialized_witness:
  "webLoginKey web0 = [] \<and>
   LogOn web0 = (Some (Error ''steam/web: session not initialized''), web0) \<and>
   started (new_effects web0 (snd (LogOn web0))) = 0"
proof -
  have key: "webLoginKey web0 = []"
    by (simp add: web0_def)
  from LogOn_not_initialized [OF key] have "fst (LogOn web0) =
      Some (Error ''steam/web: session not initialized'') \<and> snd (LogOn web0) = web0 \<and>
      started (new_effects web0 (snd (LogOn web0))) = 0"
    by simp
  with key show ?thesis
    by (simp add: prod_eq_iff)
qed

subsection \<open>Status 200: logged on\<close>

text \<open>
  C5. An exchange attempt whose HTTP response has status 200 and a body that decodes
  sets \<^verbatim>\<open>SteamLogin\<close> to the decoded token and \<^verbatim>\<open>SteamLoginSecure\<close> to the decoded secure
  token, whatever the two fields held before, emits exactly one \<^verbatim>\<open>WebLoggedOnEvent\<close>, and
  returns nil. It writes no message and leaves the flag, the session id and the login
  key as they were.
\<close>

theorem apiLogOn_success:
  fixes env w
  defines "w' \<equiv> snd (apiLogOn env w)"
  assumes "rand_Read env (make_bytes 32) = Inr key"
    and "RSAEncrypt env (GetPublicKey env EUniverse_Public) key = Inr csk"
    and "aes_NewCipher env key = Inr ciph"
    and "SymmetricEncrypt env ciph (bytes_of_string (webLoginKey w)) = Inr clk"
    and "data = [(''format'', ''json''), (''steamid'', SteamID_FormatString (client w)),
      (''sessionkey'', string_of_bytes csk), (''encrypted_loginkey'', string_of_bytes clk)]"
    and "http_PostForm env api_url data = Inr resp"
    and "StatusCode resp = 200"
    and "json_Decode env (Body resp) = Inr result"
  shows "fst (apiLogOn env w) = None \<and>
         SteamLogin w' = Token result \<and>
         SteamLoginSecure w' = TokenSecure result \<and>
         new_effects w w' = [RandRead 32, PostForm api_url data, Emit WebLoggedOnEvent] \<and>
         emitted (new_effects w w') = [WebLoggedOnEvent] \<and>
         written (new_effects w w') = [] \<and>
         relogOnNonce w' = relogOnNonce w \<and> SessionID w' = SessionID w \<and>
         webLoginKey w' = webLoginKey w"
  unfolding w'_def
  using apiLogOn_response [OF assms(2-7) refl] assms(8,9)
  by (simp add: client_Emit_def record_effect_def new_effects_def)

theorem apiLogOn_success_witness:
  "SteamLogin web1 = ''old'' \<and> SteamLoginSecure web1 = ''oldsecure'' \<and>
   fst (apiLogOn (world_with resp200) web1) = None \<and>
   SteamLogin (snd (apiLogOn (world_with resp200) web1)) = ''token'' \<and>
   SteamLoginSecure (snd (apiLogOn (world_with resp200) web1)) = ''tokensecure'' \<and>
   emitted (new_effects web1 (snd (apiLogOn (world_with resp200) web1))) = [WebLoggedOnEvent]"
proof -
  have status: "StatusCode resp200 = 200"
    by (simp add: resp200_def)
  have decoded: "json_Decode (world_with resp200) (Body resp200) =
      Inr \<lparr>Token = ''token'', TokenSecure = ''tokensecure''\<rparr>"
    by (simp add: world_with_def)
  have old: "SteamLogin web1 = ''old''" "SteamLoginSecure web1 = ''oldsecure''"
    by (simp_all add: web1_def)
  from apiLogOn_success [where env = "world_with resp200" and w = web1,
      OF world_with_crypto(1-4) refl world_with_crypto(5) status decoded] old
  show ?thesis
    by simp
qed

subsection \<open>The new login key\<close>

text \<open>
  C6. For every \<^verbatim>\<open>ClientNewLoginKey\<close> message that decodes, with unique id \<open>n\<close>,
  \<^verbatim>\<open>handleNewLoginKey\<close> writes exactly one message, the \<^verbatim>\<open>ClientNewLoginKeyAccepted\<close> with
  the same id \<open>n\<close>, sets \<^verbatim>\<open>SessionID\<close> to the standard base-64 encoding of the bytes of the
  decimal rendering of \<open>n\<close>, and then emits exactly one \<^verbatim>\<open>WebSessionIDEvent\<close>. For
  \<open>n = 12345\<close> the session id is the encoding of the string "12345", which is
  "MTIzNDU=". The other fields are unchanged.
\<close>

theorem handleNewLoginKey_accepts:
  fixes ReadProtoMsg packet w
  defines "w' \<equiv> handleNewLoginKey ReadProtoMsg packet w"
  assumes "ReadProtoMsg (Data packet) = Inr msg"
    and "GetUniqueId msg = n"
  shows "new_effects w w' =
           [Write (ProtoMessage EMsg_ClientNewLoginKeyAccepted
                     (CMsgClientNewLoginKeyAccepted (Some n))),
            Emit WebSessionIDEvent] \<and>
         written (new_effects w w') =
           [ProtoMessage EMsg_ClientNewLoginKeyAccepted (CMsgClientNewLoginKeyAccepted (Some n))] \<and>
         emitted (new_effects w w') = [WebSessionIDEvent] \<and>
         SessionID w' = EncodeToString (bytes_of_string (FormatUint (unat n))) \<and>
         (n = 12345 \<longrightarrow> SessionID w' = EncodeToString (bytes_of_string ''12345'') \<and>
                        SessionID w' = ''MTIzNDU='') \<and>
         relogOnNonce w' = relogOnNonce w \<and> SteamLogin w' = SteamLogin w \<and>
         SteamLoginSecure w' = SteamLoginSecure w \<and> webLoginKey w' = webLoginKey w"
proof -
  have example: "FormatUint (unat (12345 :: 32 word)) = ''12345''"
    by (simp add: FormatUint.simps digit_char_def digits_def)
  have encoded: "EncodeToString (bytes_of_string ''12345'') = ''MTIzNDU=''"
    by (simp add: bytes_of_string_def b64_char_def encodeStd_def)
  from assms(2,3) have "w' = client_Emit WebSessionIDEvent
      ((client_Write (ProtoMessage EMsg_ClientNewLoginKeyAccepted
          (CMsgClientNewLoginKeyAccepted (Some n))) w)
        \<lparr>SessionID := EncodeToString (bytes_of_string (FormatUint (unat n)))\<rparr>)"
    by (simp add: w'_def handleNewLoginKey_def Let_def)
  then show ?thesis
    using example encoded
    by (simp add: client_Emit_def client_Write_def record_effect_def new_effects_def)
qed

theorem handleNewLoginKey_accepts_witness:
  "SessionID (handleNewLoginKey read_key key_packet web0) = ''MTIzNDU='' \<and>
   written (new_effects web0 (handleNewLoginKey read_key key_packet web0)) =
     [ProtoMessage EMsg_ClientNewLoginKeyAccepted (CMsgClientNewLoginKeyAccepted (Some 12345))] \<and>
   emitted (new_effects web0 (handleNewLoginKey read_key key_packet web0)) =
     [WebSessionIDEvent]"
proof -
  have decoded: "read_key (Data key_packet) = Inr \<lparr>UniqueId = Some 12345, LoginKey = None\<rparr>"
    by (simp add: read_key_def key_packet_def)
  have id: "GetUniqueId \<lparr>UniqueId = Some 12345, LoginKey = None\<rparr> = 12345"
    by (simp add: GetUniqueId_def)
  from handleNewLoginKey_accepts [where ReadProtoMsg = read_key and packet = key_packet
      and w = web0, OF decoded id] show ?thesis
    apply (simp (no_asm_use))
    apply blast
    done
qed

subsection \<open>The session key of an attempt\<close>

text \<open>
  C7. Every exchange attempt reads 32 random bytes anew, as its first step, and the bytes
  it read are its session key, of length 32: the key is encrypted with
  \<^verbatim>\<open>RSAEncrypt\<close> under the public key that \<^verbatim>\<open>GetPublicKey\<close> gives for the universe (the
  code names \<^verbatim>\<open>EUniverse_Public\<close>), the cipher is made by \<^verbatim>\<open>aes.NewCipher\<close> from the same
  key, and the bytes of the current login key are encrypted with that cipher; the two
  results are the fields \<^verbatim>\<open>sessionkey\<close> and \<^verbatim>\<open>encrypted_loginkey\<close> of the one form the
  attempt posts. An attempt that follows uses what it reads itself: its form is built
  from the second key, and nothing of the first attempt's key is kept in the state.
  The quality of the random bytes is that of \<^verbatim>\<open>crypto/rand\<close> and is not modelled.
\<close>

theorem apiLogOn_fresh_session_key:
  fixes env env2 w
  defines "w' \<equiv> snd (apiLogOn env w)"
  defines "w'' \<equiv> snd (apiLogOn env2 w')"
  assumes "rand_Read env (make_bytes 32) = Inr key"
    and "RSAEncrypt env (GetPublicKey env EUniverse_Public) key = Inr csk"
    and "aes_NewCipher env key = Inr ciph"
    and "SymmetricEncrypt env ciph (bytes_of_string (webLoginKey w)) = Inr clk"
    and "rand_Read env2 (make_bytes 32) = Inr key2"
    and "RSAEncrypt env2 (GetPublicKey env2 EUniverse_Public) key2 = Inr csk2"
    and "aes_NewCipher env2 key2 = Inr ciph2"
    and "SymmetricEncrypt env2 ciph2 (bytes_of_string (webLoginKey w)) = Inr clk2"
  shows "length key = 32 \<and> length key2 = 32 \<and>
         attempts (new_effects w w') = 1 \<and> attempts (new_effects w' w'') = 1 \<and>
         take 2 (new_effects w w') =
           [RandRead 32,
            PostForm api_url
              [(''format'', ''json''), (''steamid'', SteamID_FormatString (client w)),
               (''sessionkey'', string_of_bytes csk),
               (''encrypted_loginkey'', string_of_bytes clk)]] \<and>
         posted (new_effects w w') =
           [(api_url,
             [(''format'', ''json''), (''steamid'', SteamID_FormatString (client w)),
              (''sessionkey'', string_of_bytes csk),
              (''encrypted_loginkey'', string_of_bytes clk)])] \<and>
         posted (new_effects w' w'') =
           [(api_url,
             [(''format'', ''json''), (''steamid'', SteamID_FormatString (client w)),
              (''sessionkey'', string_of_bytes csk2),
              (''encrypted_loginkey'', string_of_bytes clk2)])]"
proof -
  have same: "webLoginKey w' = webLoginKey w"
    "SteamID_FormatString (client w') = SteamID_FormatString (client w)"
    using apiLogOn_keeps [of env w] by (simp_all add: w'_def SteamID_FormatString_def)
  from assms(10) same(1)
  have sym2: "SymmetricEncrypt env2 ciph2 (bytes_of_string (webLoginKey w')) = Inr clk2"
    by simp
  from apiLogOn_posts [OF assms(3-6) refl] apiLogOn_posts [OF assms(7-9) sym2 refl] same(2)
  show ?thesis
    by (simp add: w'_def w''_def)
qed

theorem apiLogOn_fresh_session_key_witness:
  "posted (new_effects web1 (snd (apiLogOn (world_with resp500) web1))) =
     [(api_url,
       [(''format'', ''json''), (''steamid'', SteamID_FormatString (client web1)),
        (''sessionkey'', string_of_bytes (replicate 32 7)),
        (''encrypted_loginkey'', string_of_bytes (bytes_of_string (webLoginKey web1)))])] \<and>
   posted (new_effects (snd (apiLogOn (world_with resp500) web1))
      (snd (apiLogOn ((world_with resp200)\<lparr>rand_source := \<lambda>n. Inr (replicate n 9)\<rparr>)
              (snd (apiLogOn (world_with resp500) web1))))) =
     [(api_url,
       [(''format'', ''json''), (''steamid'', SteamID_FormatString (client web1)),
        (''sessionkey'', string_of_bytes (replicate 32 9)),
        (''encrypted_loginkey'', string_of_bytes (bytes_of_string (webLoginKey web1)))])]"
proof -
  let ?env2 = "(world_with resp200)\<lparr>rand_source := \<lambda>n. Inr (replicate n 9)\<rparr>"
  have second: "rand_Read ?env2 (make_bytes 32) = Inr (replicate 32 9)"
    "RSAEncrypt ?env2 (GetPublicKey ?env2 EUniverse_Public) (replicate 32 9) = Inr (replicate 32 9)"
    "aes_NewCipher ?env2 (replicate 32 9) = Inr (Block (replicate 32 9))"
    "SymmetricEncrypt ?env2 (Block (replicate 32 9)) (bytes_of_string (webLoginKey web1)) =
       Inr (bytes_of_string (webLoginKey web1))"
    by (simp_all add: world_with_def rand_Read_def make_bytes_def)
  have first: "RSAEncrypt (world_with resp500) (GetPublicKey (world_with resp500) EUniverse_Public)
      (replicate 32 7) = Inr (replicate 32 7)"
    by (simp add: world_with_def)
  from apiLogOn_fresh_session_key [where env = "world_with resp500" and ?env2.0 = ?env2
      and w = web1, OF world_with_crypto(1) first world_with_crypto(3,4) second]
  show ?thesis
    by blast
qed

subsection \<open>A failing encryption step\<close>

text \<open>
  C8. If reading the random bytes, the RSA encryption, the construction of the cipher or
  the symmetric encryption fails in an exchange attempt, the attempt returns that error
  as its result, which is how the failure of the HTTP request is returned too (the
  second world below is one where the request itself fails with the same error). The
  attempt has then done nothing but read the random bytes: no form was posted, no
  message written, no event emitted, and every field of the struct is as before.
\<close>

theorem apiLogOn_crypto_failure:
  fixes env w
  defines "w' \<equiv> snd (apiLogOn env w)"
  assumes "rand_Read env (make_bytes 32) = Inl err \<or>
           rand_Read env (make_bytes 32) = Inr key \<and>
           (RSAEncrypt env (GetPublicKey env EUniverse_Public) key = Inl err \<or>
            RSAEncrypt env (GetPublicKey env EUniverse_Public) key = Inr csk \<and>
            (aes_NewCipher env key = Inl err \<or>
             aes_NewCipher env key = Inr ciph \<and>
             SymmetricEncrypt env ciph (bytes_of_string (webLoginKey w)) = Inl err))"
    and "rand_Read env2 (make_bytes 32) = Inr key2"
    and "RSAEncrypt env2 (GetPublicKey env2 EUniverse_Public) key2 = Inr csk2"
    and "aes_NewCipher env2 key2 = Inr ciph2"
    and "SymmetricEncrypt env2 ciph2 (bytes_of_string (webLoginKey w)) = Inr clk2"
    and "http_PostForm env2 api_url
           [(''format'', ''json''), (''steamid'', SteamID_FormatString (client w)),
            (''sessionkey'', string_of_bytes csk2), (''encrypted_loginkey'', string_of_bytes clk2)] =
         Inl err"
  shows "fst (apiLogOn env w) = Some err \<and>
         fst (apiLogOn env w) = fst (apiLogOn env2 w) \<and>
         new_effects w w' = [RandRead 32] \<and>
         posted (new_effects w w') = [] \<and>
         written (new_effects w w') = [] \<and>
         emitted (new_effects w w') = [] \<and>
         session_state w' = session_state w"
  unfolding w'_def
  using apiLogOn_crypto_abort [OF assms(2)] apiLogOn_transport_failure [OF assms(3-6) refl assms(7)]
  by (simp add: record_effect_def)

theorem apiLogOn_crypto_failure_witness:
  "fst (apiLogOn (world_broken 0 ''entropy'') web1) = Some (Error ''entropy'') \<and>
   posted (new_effects web1 (snd (apiLogOn (world_broken 0 ''entropy'') web1))) = [] \<and>
   session_state (snd (apiLogOn (world_broken 0 ''entropy'') web1)) = session_state web1 \<and>
   fst (apiLogOn (world_broken 1 ''rsa'') web1) = Some (Error ''rsa'') \<and>
   posted (new_effects web1 (snd (apiLogOn (world_broken 1 ''rsa'') web1))) = [] \<and>
   session_state (snd (apiLogOn (world_broken 1 ''rsa'') web1)) = session_state web1 \<and>
   fst (apiLogOn (world_broken 2 ''aes'') web1) = Some (Error ''aes'') \<and>
   posted (new_effects web1 (snd (apiLogOn (world_broken 2 ''aes'') web1))) = [] \<and>
   session_state (snd (apiLogOn (world_broken 2 ''aes'') web1)) = session_state web1 \<and>
   fst (apiLogOn (world_broken 3 ''cbc'') web1) = Some (Error ''cbc'') \<and>
   posted (new_effects web1 (snd (apiLogOn (world_broken 3 ''cbc'') web1))) = [] \<and>
   session_state (snd (apiLogOn (world_broken 3 ''cbc'') web1)) = session_state web1 \<and>
   fst (apiLogOn (world_down ''entropy'') web1) = Some (Error ''entropy'')"
proof -
  have step0: "rand_Read (world_broken 0 ''entropy'') (make_bytes 32) = Inl (Error ''entropy'') \<or>
      rand_Read (world_broken 0 ''entropy'') (make_bytes 32) = Inr [] \<and>
      (RSAEncrypt (world_broken 0 ''entropy'')
         (GetPublicKey (world_broken 0 ''entropy'') EUniverse_Public) [] = Inl (Error ''entropy'') \<or>
       RSAEncrypt (world_broken 0 ''entropy'')
         (GetPublicKey (world_broken 0 ''entropy'') EUniverse_Public) [] = Inr [] \<and>
       (aes_NewCipher (world_broken 0 ''entropy'') [] = Inl (Error ''entropy'') \<or>
        aes_NewCipher (world_broken 0 ''entropy'') [] = Inr (Block []) \<and>
        SymmetricEncrypt (world_broken 0 ''entropy'') (Block [])
          (bytes_of_string (webLoginKey web1)) = Inl (Error ''entropy'')))"
    by (simp add: world_broken_def rand_Read_def make_bytes_def)
  have step1: "rand_Read (world_broken 1 ''rsa'') (make_bytes 32) = Inl (Error ''rsa'') \<or>
      rand_Read (world_broken 1 ''rsa'') (make_bytes 32) = Inr (replicate 32 7) \<and>
      (RSAEncrypt (world_broken 1 ''rsa'')
         (GetPublicKey (world_broken 1 ''rsa'') EUniverse_Public) (replicate 32 7) =
           Inl (Error ''rsa'') \<or>
       RSAEncrypt (world_broken 1 ''rsa'')
         (GetPublicKey (world_broken 1 ''rsa'') EUniverse_Public) (replicate 32 7) = Inr [] \<and>
       (aes_NewCipher (world_broken 1 ''rsa'') (replicate 32 7) = Inl (Error ''rsa'') \<or>
        aes_NewCipher (world_broken 1 ''rsa'') (replicate 32 7) = Inr (Block []) \<and>
        SymmetricEncrypt (world_broken 1 ''rsa'') (Block [])
          (bytes_of_string (webLoginKey web1)) = Inl (Error ''rsa'')))"
    by (simp add: world_broken_def rand_Read_def make_bytes_def)
  have step2: "rand_Read (world_broken 2 ''aes'') (make_bytes 32) = Inl (Error ''aes'') \<or>
      rand_Read (world_broken 2 ''aes'') (make_bytes 32) = Inr (replicate 32 7) \<and>
      (RSAEncrypt (world_broken 2 ''aes'')
         (GetPublicKey (world_broken 2 ''aes'') EUniverse_Public) (replicate 32 7) =
           Inl (Error ''aes'') \<or>
       RSAEncrypt (world_broken 2 ''aes'')
         (GetPublicKey (world_broken 2 ''aes'') EUniverse_Public) (replicate 32 7) =
           Inr (replicate 32 7) \<and>
       (aes_NewCipher (world_broken 2 ''aes'') (replicate 32 7) = Inl (Error ''aes'') \<or>
        aes_NewCipher (world_broken 2 ''aes'') (replicate 32 7) = Inr (Block []) \<and>
        SymmetricEncrypt (world_broken 2 ''aes'') (Block [])
          (bytes_of_string (webLoginKey web1)) = Inl (Error ''aes'')))"
    by (simp add: world_broken_def rand_Read_def make_bytes_def)
  have step3: "rand_Read (world_broken 3 ''cbc'') (make_bytes 32) = Inl (Error ''cbc'') \<or>
      rand_Read (world_broken 3 ''cbc'') (make_bytes 32) = Inr (replicate 32 7) \<and>
      (RSAEncrypt (world_broken 3 ''cbc'')
         (GetPublicKey (world_broken 3 ''cbc'') EUniverse_Public) (replicate 32 7) =
           Inl (Error ''cbc'') \<or>
       RSAEncrypt (world_broken 3 ''cbc'')
         (GetPublicKey (world_broken 3 ''cbc'') EUniverse_Public) (replicate 32 7) =
           Inr (replicate 32 7) \<and>
       (aes_NewCipher (world_broken 3 ''cbc'') (replicate 32 7) = Inl (Error ''cbc'') \<or>
        aes_NewCipher (world_broken 3 ''cbc'') (replicate 32 7) =
          Inr (Block (replicate 32 7)) \<and>
        SymmetricEncrypt (world_broken 3 ''cbc'') (Block (replicate 32 7))
          (bytes_of_string (webLoginKey web1)) = Inl (Error ''cbc'')))"
    by (simp add: world_broken_def rand_Read_def make_bytes_def)
  note down = world_down_crypto(1-4) world_down_crypto(5)
  from apiLogOn_crypto_failure [where w = web1, OF step0 down]
    apiLogOn_crypto_failure [where w = web1, OF step1 down]
    apiLogOn_crypto_failure [where w = web1, OF step2 down]
    apiLogOn_crypto_failure [where w = web1, OF step3 down]
    world_down_fails [of "''entropy''" web1]
  show ?thesis
    by blast
qed

subsection \<open>Any other response\<close>

text \<open>
  C9. An exchange attempt whose HTTP response has a status other than 200 and 401 returns
  the error "web: request failed with status ..." with the status line; one whose
  response has status 200 and a body that does not decode returns the decoder's error.
  In both cases the two cookies, the session id, the login key and the flag are as
  before, no event is emitted and no message is written.
\<close>

theorem apiLogOn_protocol_error:
  fixes env w
  defines "w' \<equiv> snd (apiLogOn env w)"
  assumes "rand_Read env (make_bytes 32) = Inr key"
    and "RSAEncrypt env (GetPublicKey env EUniverse_Public) key = Inr csk"
    and "aes_NewCipher env key = Inr ciph"
    and "SymmetricEncrypt env ciph (bytes_of_string (webLoginKey w)) = Inr clk"
    and "data = [(''format'', ''json''), (''steamid'', SteamID_FormatString (client w)),
      (''sessionkey'', string_of_bytes csk), (''encrypted_loginkey'', string_of_bytes clk)]"
    and "http_PostForm env api_url data = Inr resp"
    and "StatusCode resp \<noteq> 200 \<and> StatusCode resp \<noteq> 401 \<and>
           err = Error (''web: request failed with status '' @ Status resp) \<or>
         StatusCode resp = 200 \<and> json_Decode env (Body resp) = Inl err"
  shows "fst (apiLogOn env w) = Some err \<and>
         SteamLogin w' = SteamLogin w \<and> SteamLoginSecure w' = SteamLoginSecure w \<and>
         SessionID w' = SessionID w \<and> webLoginKey w' = webLoginKey w \<and>
         relogOnNonce w' = relogOnNonce w \<and>
         new_effects w w' = [RandRead 32, PostForm api_url data] \<and>
         emitted (new_effects w w') = [] \<and>
         written (new_effects w w') = []"
  unfolding w'_def
  using apiLogOn_response [OF assms(2-7) refl] assms(8)
  by (auto simp add: new_effects_def)

theorem apiLogOn_protocol_error_witness:
  "fst (apiLogOn (world_with resp500) web1) =
     Some (Error ''web: request failed with status 500 Internal Server Error'') \<and>
   session_state (snd (apiLogOn (world_with resp500) web1)) = session_state web1 \<and>
   emitted (new_effects web1 (snd (apiLogOn (world_with resp500) web1))) = [] \<and>
   fst (apiLogOn ((world_with resp200)\<lparr>json_Decode := \<lambda>b. Inl (Error ''unexpected end of JSON input'')\<rparr>) web1) =
     Some (Error ''unexpected end of JSON input'') \<and>
   session_state (snd (apiLogOn ((world_with resp200)\<lparr>json_Decode := \<lambda>b. Inl (Error ''unexpected end of JSON input'')\<rparr>) web1)) = session_state web1 \<and>
   emitted (new_effects web1 (snd (apiLogOn ((world_with resp200)\<lparr>json_Decode := \<lambda>b. Inl (Error ''unexpected end of JSON input'')\<rparr>) web1))) = []"
proof -
  let ?bad = "(world_with resp200)\<lparr>json_Decode := \<lambda>b. Inl (Error ''unexpected end of JSON input'')\<rparr>"
  have status: "StatusCode resp500 \<noteq> 200 \<and> StatusCode resp500 \<noteq> 401 \<and>
      Error ''web: request failed with status 500 Internal Server Error'' =
        Error (''web: request failed with status '' @ Status resp500) \<or>
      StatusCode resp500 = 200 \<and> json_Decode (world_with resp500) (Body resp500) =
        Inl (Error ''web: request failed with status 500 Internal Server Error'')"
    by (simp add: resp500_def)
  have crypto: "rand_Read ?bad (make_bytes 32) = Inr (replicate 32 7)"
    "RSAEncrypt ?bad (GetPublicKey ?bad EUniverse_Public) (replicate 32 7) = Inr (replicate 32 7)"
    "aes_NewCipher ?bad (replicate 32 7) = Inr (Block (replicate 32 7))"
    "SymmetricEncrypt ?bad (Block (replicate 32 7)) (bytes_of_string (webLoginKey web1)) =
       Inr (bytes_of_string (webLoginKey web1))"
    "\<And>u d. http_PostForm ?bad u d = Inr resp200"
    by (simp_all add: world_with_def rand_Read_def make_bytes_def)
  have undecodable: "StatusCode resp200 \<noteq> 200 \<and> StatusCode resp200 \<noteq> 401 \<and>
      Error ''unexpected end of JSON input'' =
        Error (''web: request failed with status '' @ Status resp200) \<or>
      StatusCode resp200 = 200 \<and>
      json_Decode ?bad (Body resp200) = Inl (Error ''unexpected end of JSON input'')"
    by (simp add: resp200_def)
  from apiLogOn_protocol_error [where env = "world_with resp500" and w = web1,
      OF world_with_crypto(1-4) refl world_with_crypto(5) status]
    apiLogOn_protocol_error [where env = ?bad and w = web1,
      OF crypto(1-4) refl crypto(5) undecodable]
  show ?thesis
    by (simp add: session_state_def)
qed

subsection \<open>An empty nonce\<close>

text \<open>
  C10. If a nonce response delivers the empty string while \<^verbatim>\<open>relogOnNonce\<close> is 1, the
  handler stores the empty string in \<^verbatim>\<open>webLoginKey\<close> and clears the flag; the \<^verbatim>\<open>LogOn\<close> it
  then calls returns "steam/web: session not initialized", and logging that error is
  all the handler does: no goroutine is started, so no attempt is made, and no event
  (no \<^verbatim>\<open>WebLogOnErrorEvent\<close>) is emitted. The flag stays 0, so a nonce response that
  arrives later, whatever it delivers, starts nothing either.
\<close>

theorem handleAuthNonceResponse_empty_nonce:
  fixes ReadProtoMsg packet w ReadLater later
  defines "w' \<equiv> handleAuthNonceResponse ReadProtoMsg packet w"
  defines "w'' \<equiv> handleAuthNonceResponse ReadLater later w'"
  assumes "ReadProtoMsg (Data packet) = Inr msg"
    and "GetWebapiAuthenticateUserNonce msg = []"
    and "relogOnNonce w = 1"
    and "ReadLater (Data later) = Inr later_msg"
  shows "webLoginKey w' = [] \<and> relogOnNonce w' = 0 \<and>
         fst (LogOn (w\<lparr>webLoginKey := [], relogOnNonce := 0\<rparr>)) =
           Some (Error ''steam/web: session not initialized'') \<and>
         new_effects w w' =
           [Errorf ''web: error logging on: %v''
              (Error ''steam/web: session not initialized'')] \<and>
         logged (new_effects w w') =
           [(''web: error logging on: %v'', Error ''steam/web: session not initialized'')] \<and>
         started (new_effects w w') = 0 \<and> attempts (new_effects w w') = 0 \<and>
         emitted (new_effects w w') = [] \<and> written (new_effects w w') = [] \<and>
         SessionID w' = SessionID w \<and> SteamLogin w' = SteamLogin w \<and>
         SteamLoginSecure w' = SteamLoginSecure w \<and>
         relogOnNonce w'' = 0 \<and> new_effects w' w'' = []"
proof -
  from assms(3-5) have first: "w' = client_Errorf ''web: error logging on: %v''
      (Error ''steam/web: session not initialized'') (w\<lparr>webLoginKey := [], relogOnNonce := 0\<rparr>)"
    by (simp add: w'_def handleAuthNonceResponse_def CompareAndSwapUint32_relogOnNonce_def
        Let_def LogOn_def)
  then have flag: "relogOnNonce w' = 0"
    by (simp add: client_Errorf_def record_effect_def)
  with assms(6) have second: "w'' = w'\<lparr>webLoginKey := GetWebapiAuthenticateUserNonce later_msg\<rparr>"
    by (simp add: w''_def handleAuthNonceResponse_def CompareAndSwapUint32_relogOnNonce_def
        Let_def)
  have later: "relogOnNonce w'' = 0 \<and> new_effects w' w'' = []"
    using flag by (simp add: second new_effects_def)
  have now: "webLoginKey w' = [] \<and> relogOnNonce w' = 0 \<and>
         fst (LogOn (w\<lparr>webLoginKey := [], relogOnNonce := 0\<rparr>)) =
           Some (Error ''steam/web: session not initialized'') \<and>
         new_effects w w' =
           [Errorf ''web: error logging on: %v''
              (Error ''steam/web: session not initialized'')] \<and>
         SessionID w' = SessionID w \<and> SteamLogin w' = SteamLogin w \<and>
         SteamLoginSecure w' = SteamLoginSecure w"
    by (simp add: first client_Errorf_def record_effect_def new_effects_def LogOn_def)
  then have "new_effects w w' =
           [Errorf ''web: error logging on: %v''
              (Error ''steam/web: session not initialized'')]"
    by blast
  then have kinds: "logged (new_effects w w') =
           [(''web: error logging on: %v'', Error ''steam/web: session not initialized'')] \<and>
         started (new_effects w w') = 0 \<and> attempts (new_effects w w') = 0 \<and>
         emitted (new_effects w w') = [] \<and> written (new_effects w w') = []"
    by simp
  from now kinds later show ?thesis
    by blast
qed

theorem handleAuthNonceResponse_empty_nonce_witness:
  "relogOnNonce web_stale = 1 \<and>
   webLoginKey (handleAuthNonceResponse (read_nonce []) nonce_packet web_stale) = [] \<and>
   relogOnNonce (handleAuthNonceResponse (read_nonce []) nonce_packet web_stale) = 0 \<and>
   new_effects web_stale (handleAuthNonceResponse (read_nonce []) nonce_packet web_stale) =
     [Errorf ''web: error logging on: %v'' (Error ''steam/web: session not initialized'')] \<and>
   emitted (new_effects web_stale
     (handleAuthNonceResponse (read_nonce []) nonce_packet web_stale)) = [] \<and>
   started (new_effects web_stale
     (handleAuthNonceResponse (read_nonce []) nonce_packet web_stale)) = 0 \<and>
   new_effects (handleAuthNonceResponse (read_nonce []) nonce_packet web_stale)
     (handleAuthNonceResponse (read_nonce ''fresh'') nonce_packet
        (handleAuthNonceResponse (read_nonce []) nonce_packet web_stale)) = []"
proof -
  have armed: "relogOnNonce web_stale = 1"
    by (simp add: web_stale_def web1_def)
  have empty: "GetWebapiAuthenticateUserNonce
      \<lparr>Eresult = Some 1, WebapiAuthenticateUserNonce = Some []\<rparr> = []"
    by (simp add: GetWebapiAuthenticateUserNonce_def)
  from handleAuthNonceResponse_empty_nonce [where ReadProtoMsg = "read_nonce []"
      and packet = nonce_packet and w = web_stale and ReadLater = "read_nonce ''fresh''"
      and later = nonce_packet, OF read_nonce_decodes(1) empty armed read_nonce_decodes(1)]
    armed
  show ?thesis
    by blast
qed

end
